theory Spec2Isabelle
  imports Complex_Main "HOL-Library.Sublist" "HOL-Library.Word"
begin

section \<open>The satellite image fetcher (data_fetcher.py)\<close>

text \<open>
  The script is a straight-line program: it reads the credential, loads the table,
  and runs one loop over the rows. Everything the script obtains from outside (the
  environment variable, the spreadsheet, the HTTP service, the disk, and Python's
  formatting of identifiers and floating-point coordinates inside f-strings) is a field
  of the record \<open>world\<close>; the module-level switches are the record \<open>config\<close>.
  The storage, the requests issued, the printed lines and the two counters are the
  record \<open>state\<close>, passed through the loop.
\<close>

subsection \<open>Data\<close>

type_synonym bytes = "8 word list"
type_synonym path = string

text \<open>One row of the table: the columns \<open>id\<close>, \<open>lat\<close> and \<open>long\<close>.\<close>

record ('i, 'c) row =
  row_id :: 'i
  row_lat :: 'c
  row_long :: 'c

text \<open>The runtime switches of lines 39 to 41.\<close>

record config =
  USE_SAMPLE :: bool
  SAMPLE_SIZE :: int
  PROGRESS_INTERVAL :: int

definition source_config :: config where
  "source_config = \<lparr>USE_SAMPLE = False, SAMPLE_SIZE = 500, PROGRESS_INTERVAL = 50\<rparr>"

datatype error =
    RuntimeError string
  | ZeroDivisionError
  | ReadError string
  | SampleError string

text \<open>
  \<open>requests.get\<close> either returns a response or raises; \<open>open\<close> followed by
  \<open>write\<close> either completes, raises in \<open>open\<close> (nothing created), or raises in
  \<open>write\<close> after some number of bytes reached the file.
\<close>

datatype get_result = Response (status_code: int) (content: bytes) | GetRaises string

datatype write_result = Written | OpenRaises string | WriteRaises nat string

text \<open>
  The lines the script prints, one constructor per \<open>print\<close> statement:
  \<^item> \<open>Starting\<close>: line 62; \<open>Total_images n\<close>: line 63;
  \<^item> \<open>Failed_ID pid code\<close>: line 99, \<open>Failed ID {pid} | HTTP {code}\<close>;
  \<^item> \<open>Error_for_ID pid e\<close>: line 102, \<open>Error for ID {pid}: {e}\<close>;
  \<^item> \<open>Downloaded_of d n\<close>: line 106, \<open>Downloaded {d}/{n} images\<close>;
  \<^item> \<open>Summary n d k\<close>: the block of lines 109 to 113.
\<close>

datatype 'i line =
    Starting
  | Total_images int
  | Failed_ID 'i int
  | Error_for_ID 'i string
  | Downloaded_of int int
  | Summary int int int

record ('i, 'c) world =
  getenv :: "string \<Rightarrow> string option"
  read_excel :: "path \<Rightarrow> string + ('i, 'c) row list"
  df_sample :: "int \<Rightarrow> int \<Rightarrow> ('i, 'c) row list \<Rightarrow> string + ('i, 'c) row list"
  requests_get :: "nat \<Rightarrow> string \<Rightarrow> get_result"
  file_write :: "nat \<Rightarrow> path \<Rightarrow> write_result"
  str_id :: "'i \<Rightarrow> string"
  str_coord :: "'c \<Rightarrow> string"

text \<open>
  \<open>requests_get W n url\<close> and \<open>file_write W n p\<close> are the outcomes of the request
  and of the write made when \<open>n\<close> requests were issued before in this run: the service
  and the disk may answer the same URL or path differently at different times.
\<close>

record 'i state =
  files :: "path \<rightharpoonup> bytes"
  loaded :: "path list"
  requests :: "string list"
  out :: "'i line list"
  downloaded :: int
  skipped :: int

definition initial :: "(path \<rightharpoonup> bytes) \<Rightarrow> 'i state" where
  "initial fs = \<lparr>files = fs, loaded = [], requests = [], out = [], downloaded = 0, skipped = 0\<rparr>"

subsection \<open>Formatting of integers\<close>

definition digit :: "nat \<Rightarrow> char" where
  "digit n = ''0123456789'' ! n"

fun str_nat :: "nat \<Rightarrow> string" where
  "str_nat n = (if n < 10 then [digit n] else str_nat (n div 10) @ [digit (n mod 10)])"

declare str_nat.simps [simp del]

definition str_int :: "int \<Rightarrow> string" where
  "str_int i = (if i < 0 then ''-'' @ str_nat (nat (- i)) else str_nat (nat i))"

subsection \<open>The URL builder (lines 68 to 73)\<close>

definition mapbox_url :: "('c \<Rightarrow> string) \<Rightarrow> string \<Rightarrow> 'c \<Rightarrow> 'c \<Rightarrow> int \<Rightarrow> int \<Rightarrow> string" where
  "mapbox_url fmt MAPBOX_TOKEN lat lon zoom sz =
     ''https://api.mapbox.com/styles/v1/mapbox/satellite-v9/static/''
     @ fmt lon @ '','' @ fmt lat @ '','' @ str_int zoom @ ''/'' @ str_int sz @ ''x'' @ str_int sz
     @ ''?access_token='' @ MAPBOX_TOKEN"

subsection \<open>Paths and the file write\<close>

definition DATA_PATH :: path where
  "DATA_PATH = ''data/train.xlsx''"

definition IMAGE_DIR :: path where
  "IMAGE_DIR = ''images/train''"

definition out_path :: "('i \<Rightarrow> string) \<Rightarrow> 'i \<Rightarrow> path" where
  "out_path fmt pid = IMAGE_DIR @ ''/'' @ fmt pid @ ''.jpg''"

text \<open>
  \<open>open(out_path, "wb")\<close> creates the file, or truncates it, before anything is
  written (line 95); \<open>f.write\<close> then appends to it (line 96).
\<close>

definition open_wb :: "path \<Rightarrow> (path \<rightharpoonup> bytes) \<Rightarrow> (path \<rightharpoonup> bytes)" where
  "open_wb p fs = fs(p \<mapsto> [])"

definition f_write :: "path \<Rightarrow> bytes \<Rightarrow> (path \<rightharpoonup> bytes) \<Rightarrow> (path \<rightharpoonup> bytes)" where
  "f_write p b fs = fs(p \<mapsto> (case fs p of None \<Rightarrow> [] | Some old \<Rightarrow> old) @ b)"

subsection \<open>One iteration of the loop (lines 80 to 106)\<close>

definition attempt :: "('i, 'c) world \<Rightarrow> string \<Rightarrow> 'i state \<Rightarrow> ('i, 'c) row \<Rightarrow> 'i state" where
  "attempt W MAPBOX_TOKEN s r =
     (let pid = row_id r; lat = row_lat r; lon = row_long r;
          p = out_path (str_id W) pid;
          url = mapbox_url (str_coord W) MAPBOX_TOKEN lat lon 17 256;
          n = length (requests s);
          s1 = s\<lparr>requests := requests s @ [url]\<rparr>
      in case requests_get W n url of
           GetRaises e \<Rightarrow> s1\<lparr>out := out s1 @ [Error_for_ID pid e]\<rparr>
         | Response code body \<Rightarrow>
             if code = 200 then
               (case file_write W n p of
                  OpenRaises e \<Rightarrow> s1\<lparr>out := out s1 @ [Error_for_ID pid e]\<rparr>
                | WriteRaises k e \<Rightarrow>
                    s1\<lparr>files := f_write p (take k body) (open_wb p (files s1)),
                       out := out s1 @ [Error_for_ID pid e]\<rparr>
                | Written \<Rightarrow>
                    s1\<lparr>files := f_write p body (open_wb p (files s1)),
                       downloaded := downloaded s1 + 1\<rparr>)
             else s1\<lparr>out := out s1 @ [Failed_ID pid code]\<rparr>)"

definition progress :: "config \<Rightarrow> int \<Rightarrow> 'i state \<Rightarrow> (error \<times> 'i state) + 'i state" where
  "progress C total_images s =
     (if PROGRESS_INTERVAL C = 0 then Inl (ZeroDivisionError, s)
      else if downloaded s mod PROGRESS_INTERVAL C = 0
           then Inr (s\<lparr>out := out s @ [Downloaded_of (downloaded s) total_images]\<rparr>)
           else Inr s)"

definition iteration ::
  "('i, 'c) world \<Rightarrow> config \<Rightarrow> string \<Rightarrow> int \<Rightarrow> 'i state \<Rightarrow> ('i, 'c) row
     \<Rightarrow> (error \<times> 'i state) + 'i state" where
  "iteration W C MAPBOX_TOKEN total_images s r =
     (if files s (out_path (str_id W) (row_id r)) \<noteq> None
      then Inr (s\<lparr>skipped := skipped s + 1\<rparr>)
      else progress C total_images (attempt W MAPBOX_TOKEN s r))"

subsection \<open>The loop and the whole script\<close>

fun fetch_loop ::
  "('i, 'c) world \<Rightarrow> config \<Rightarrow> string \<Rightarrow> int \<Rightarrow> 'i state \<Rightarrow> ('i, 'c) row list
     \<Rightarrow> (error \<times> 'i state) + 'i state" where
  "fetch_loop W C MAPBOX_TOKEN total_images s [] = Inr s"
| "fetch_loop W C MAPBOX_TOKEN total_images s (r # rs) =
     (case iteration W C MAPBOX_TOKEN total_images s r of
        Inl e \<Rightarrow> Inl e
      | Inr s' \<Rightarrow> fetch_loop W C MAPBOX_TOKEN total_images s' rs)"

text \<open>
  \<open>load_dotenv\<close> (line 30) only fills the environment, so \<open>getenv\<close> stands for the
  environment after it. The creation of the image directory (line 50) adds no file and is
  not part of the state. The credential is checked first, then the table is read, then the
  two banner lines are printed, then the loop runs, then the summary is printed.
\<close>

definition token_missing :: error where
  "token_missing = RuntimeError ''MAPBOX_TOKEN not found in .env file''"

definition load_data :: "('i, 'c) world \<Rightarrow> config \<Rightarrow> error + ('i, 'c) row list" where
  "load_data W C =
     (case read_excel W DATA_PATH of
        Inl e \<Rightarrow> Inl (ReadError e)
      | Inr df \<Rightarrow>
          if USE_SAMPLE C
          then (case df_sample W (min (SAMPLE_SIZE C) (int (length df))) 42 df of
                  Inl e \<Rightarrow> Inl (SampleError e)
                | Inr df' \<Rightarrow> Inr df')
          else Inr df)"

definition main ::
  "('i, 'c) world \<Rightarrow> config \<Rightarrow> (path \<rightharpoonup> bytes) \<Rightarrow> (error \<times> 'i state) + 'i state" where
  "main W C fs =
     (let s0 = initial fs in
      case getenv W ''MAPBOX_TOKEN'' of
        None \<Rightarrow> Inl (token_missing, s0)
      | Some MAPBOX_TOKEN \<Rightarrow>
          if MAPBOX_TOKEN = [] then Inl (token_missing, s0)
          else
            (let s1 = s0\<lparr>loaded := [DATA_PATH]\<rparr> in
             (case load_data W C of
                Inl e \<Rightarrow> Inl (e, s1)
              | Inr df \<Rightarrow>
                  (let total_images = int (length df);
                       s2 = s1\<lparr>out := [Starting, Total_images total_images]\<rparr>
                   in (case fetch_loop W C MAPBOX_TOKEN total_images s2 df of
                         Inl e \<Rightarrow> Inl e
                       | Inr s3 \<Rightarrow>
                           Inr (s3\<lparr>out := out s3
                                  @ [Summary total_images (downloaded s3) (skipped s3)]\<rparr>))))))"

text \<open>
  A run of the loop alone, on a dataset already loaded, from a given storage: the
  counters start at 0 (lines 76 and 77) and the total is the length of the dataset.
\<close>

definition run ::
  "('i, 'c) world \<Rightarrow> config \<Rightarrow> string \<Rightarrow> (path \<rightharpoonup> bytes) \<Rightarrow> ('i, 'c) row list
     \<Rightarrow> (error \<times> 'i state) + 'i state" where
  "run W C MAPBOX_TOKEN fs df = fetch_loop W C MAPBOX_TOKEN (int (length df)) (initial fs) df"

text \<open>The number of warning and error lines printed: one per failed record.\<close>

fun is_failure :: "'i line \<Rightarrow> bool" where
  "is_failure (Failed_ID pid code) = True"
| "is_failure (Error_for_ID pid e) = True"
| "is_failure l = False"

definition failures :: "'i state \<Rightarrow> int" where
  "failures s = int (length (filter is_failure (out s)))"

text \<open>The state a result carries, whether the script finished or was aborted.\<close>

fun state_of :: "(error \<times> 'i state) + 'i state \<Rightarrow> 'i state" where
  "state_of (Inl (e, s)) = s"
| "state_of (Inr s) = s"

subsection \<open>A concrete world for examples\<close>

text \<open>
  Integer identifiers, printed in decimal; the coordinates of the specification's
  example, with the text Python prints for them; a table of three rows at
  \<open>data/train.xlsx\<close>; a credential in the environment. The service and the disk are
  parameters.
\<close>

definition demo_str_coord :: "real \<Rightarrow> string" where
  "demo_str_coord x =
     (if x = 47.6 then ''47.6'' else if x = - 122.3 then ''-122.3'' else ''0.0'')"

definition demo_row :: "int \<Rightarrow> (int, real) row" where
  "demo_row i = \<lparr>row_id = i, row_lat = 47.6, row_long = - 122.3\<rparr>"

definition demo_world ::
  "(nat \<Rightarrow> string \<Rightarrow> get_result) \<Rightarrow> (nat \<Rightarrow> path \<Rightarrow> write_result) \<Rightarrow> (int, real) world" where
  "demo_world net disk =
     \<lparr>getenv = (\<lambda>v. if v = ''MAPBOX_TOKEN'' then Some ''pk.demo'' else None),
      read_excel = (\<lambda>p. if p = DATA_PATH then Inr [demo_row 1, demo_row 2, demo_row 3]
                          else Inl ''FileNotFoundError''),
      df_sample = (\<lambda>n seed df. Inr (take (nat n) df)),
      requests_get = net, file_write = disk, str_id = str_int, str_coord = demo_str_coord\<rparr>"

definition jpeg :: bytes where
  "jpeg = [0xFF, 0xD8, 0xFF, 0xE0]"

definition old_image :: bytes where
  "old_image = [0x01, 0x02]"

definition always_ok :: "nat \<Rightarrow> string \<Rightarrow> get_result" where
  "always_ok n url = Response 200 jpeg"

definition always_404 :: "nat \<Rightarrow> string \<Rightarrow> get_result" where
  "always_404 n url = Response 404 []"

definition second_404 :: "nat \<Rightarrow> string \<Rightarrow> get_result" where
  "second_404 n url = (if n = 1 then Response 404 [] else Response 200 jpeg)"

definition first_404 :: "nat \<Rightarrow> string \<Rightarrow> get_result" where
  "first_404 n url = (if n = 0 then Response 404 [] else Response 200 jpeg)"

definition disk_ok :: "nat \<Rightarrow> path \<Rightarrow> write_result" where
  "disk_ok n p = Written"

definition disk_full :: "nat \<Rightarrow> path \<Rightarrow> write_result" where
  "disk_full n p = WriteRaises 2 ''No space left on device''"

definition demo_storage :: "path \<rightharpoonup> bytes" where
  "demo_storage = [out_path str_int 1 \<mapsto> old_image]"

section \<open>Properties\<close>

lemmas demo_defs = demo_world_def demo_row_def demo_str_coord_def always_ok_def always_404_def
  second_404_def first_404_def disk_ok_def disk_full_def jpeg_def old_image_def demo_storage_def
  source_config_def

lemmas run_defs = run_def initial_def iteration_def attempt_def progress_def out_path_def
  IMAGE_DIR_def DATA_PATH_def mapbox_url_def str_int_def str_nat.simps digit_def Let_def
  f_write_def open_wb_def failures_def

subsection \<open>Facts about one iteration\<close>

lemma f_write_open_wb: "f_write p b (open_wb p fs) = fs(p \<mapsto> b)"
  by (simp add: f_write_def open_wb_def)

lemma attempt_skipped: "skipped (attempt W tok s r) = skipped s"
  by (simp add: attempt_def Let_def split: get_result.splits write_result.splits)

lemma attempt_files_other:
  "q \<noteq> out_path (str_id W) (row_id r) \<Longrightarrow> files (attempt W tok s r) q = files s q"
  by (simp add: attempt_def Let_def f_write_open_wb split: get_result.splits write_result.splits)

lemma attempt_outcome:
  assumes "s' = attempt W tok s r" and "p = out_path (str_id W) (row_id r)"
  shows "(downloaded s' = downloaded s + 1 \<and> failures s' = failures s \<and> files s' p \<noteq> None)
       \<or> (downloaded s' = downloaded s \<and> failures s' = failures s + 1)"
  using assms
  by (simp add: attempt_def Let_def failures_def f_write_open_wb
           split: get_result.splits write_result.splits)

lemma progress_state:
  "files (state_of (progress C t s)) = files s"
  "downloaded (state_of (progress C t s)) = downloaded s"
  "skipped (state_of (progress C t s)) = skipped s"
  "requests (state_of (progress C t s)) = requests s"
  "failures (state_of (progress C t s)) = failures s"
  by (simp_all add: progress_def failures_def)

lemma progress_returns:
  "PROGRESS_INTERVAL C \<noteq> 0 \<Longrightarrow> \<exists>s'. progress C t s = Inr s'"
  by (simp add: progress_def)

lemma iteration_outcome:
  assumes "PROGRESS_INTERVAL C \<noteq> 0"
  shows "\<exists>s'. iteration W C tok t s r = Inr s' \<and>
     ((downloaded s' = downloaded s + 1 \<and> skipped s' = skipped s \<and> failures s' = failures s)
    \<or> (downloaded s' = downloaded s \<and> skipped s' = skipped s + 1 \<and> failures s' = failures s)
    \<or> (downloaded s' = downloaded s \<and> skipped s' = skipped s \<and> failures s' = failures s + 1))"
proof (cases "files s (out_path (str_id W) (row_id r)) \<noteq> None")
  case True
  then show ?thesis by (simp add: iteration_def failures_def)
next
  case False
  obtain s' where s': "progress C t (attempt W tok s r) = Inr s'"
    using progress_returns [OF assms] by blast
  have st: "state_of (progress C t (attempt W tok s r)) = s'" by (simp add: s')
  have "downloaded s' = downloaded (attempt W tok s r)"
       "skipped s' = skipped s" "failures s' = failures (attempt W tok s r)"
    using progress_state [of C t "attempt W tok s r"] attempt_skipped [of W tok s r]
    by (simp_all add: st)
  with attempt_outcome [OF refl refl, of W tok s r] False s' show ?thesis
    by (auto simp: iteration_def)
qed

lemma iteration_files_kept:
  assumes "files s q = Some b"
  shows "files (state_of (iteration W C tok t s r)) q = Some b"
proof (cases "files s (out_path (str_id W) (row_id r)) \<noteq> None")
  case True
  with assms show ?thesis by (simp add: iteration_def)
next
  case False
  with assms have "q \<noteq> out_path (str_id W) (row_id r)" by auto
  with assms False show ?thesis
    by (simp add: iteration_def progress_state attempt_files_other)
qed

lemma iteration_files_new:
  assumes "files s q = None" and "files (state_of (iteration W C tok t s r)) q \<noteq> None"
  shows "q = out_path (str_id W) (row_id r)"
proof (rule ccontr)
  assume n: "q \<noteq> out_path (str_id W) (row_id r)"
  have "files (state_of (iteration W C tok t s r)) q = files s q"
    by (cases "files s (out_path (str_id W) (row_id r)) \<noteq> None")
       (simp_all add: iteration_def progress_state attempt_files_other [OF n])
  with assms show False by simp
qed

lemma iteration_no_failure_file:
  assumes "iteration W C tok t s r = Inr s1" and "failures s1 = failures s"
  shows "files s1 (out_path (str_id W) (row_id r)) \<noteq> None"
proof (cases "files s (out_path (str_id W) (row_id r)) \<noteq> None")
  case True
  with assms show ?thesis by (auto simp: iteration_def)
next
  case False
  with assms have p: "progress C t (attempt W tok s r) = Inr s1" by (simp add: iteration_def)
  then have st: "state_of (progress C t (attempt W tok s r)) = s1" by simp
  have "failures s1 = failures (attempt W tok s r)" "files s1 = files (attempt W tok s r)"
    using progress_state [of C t "attempt W tok s r"] by (simp_all add: st)
  with attempt_outcome [OF refl refl, of W tok s r] assms(2) show ?thesis by auto
qed

lemma iteration_failures_mono:
  "iteration W C tok t s r = Inr s1 \<Longrightarrow> failures s \<le> failures s1"
  by (auto simp: iteration_def progress_def attempt_def Let_def failures_def
           split: if_splits get_result.splits write_result.splits)

subsection \<open>Facts about the loop\<close>

lemma loop_counters:
  assumes "PROGRESS_INTERVAL C \<noteq> 0"
  shows "\<exists>s'. fetch_loop W C tok t s rs = Inr s' \<and>
     downloaded s \<le> downloaded s' \<and> skipped s \<le> skipped s' \<and> failures s \<le> failures s' \<and>
     (downloaded s' - downloaded s) + (skipped s' - skipped s) + (failures s' - failures s)
       = int (length rs)"
proof (induction rs arbitrary: s)
  case Nil
  show ?case by simp
next
  case (Cons r rs)
  obtain s1 where s1: "iteration W C tok t s r = Inr s1"
    and o: "(downloaded s1 = downloaded s + 1 \<and> skipped s1 = skipped s \<and> failures s1 = failures s)
    \<or> (downloaded s1 = downloaded s \<and> skipped s1 = skipped s + 1 \<and> failures s1 = failures s)
    \<or> (downloaded s1 = downloaded s \<and> skipped s1 = skipped s \<and> failures s1 = failures s + 1)"
    using iteration_outcome [OF assms, of W tok t s r] by blast
  obtain s' where s': "fetch_loop W C tok t s1 rs = Inr s'"
    and m: "downloaded s1 \<le> downloaded s'" "skipped s1 \<le> skipped s'" "failures s1 \<le> failures s'"
    and e: "(downloaded s' - downloaded s1) + (skipped s' - skipped s1) + (failures s' - failures s1)
       = int (length rs)"
    using Cons.IH [of s1] by blast
  have "fetch_loop W C tok t s (r # rs) = Inr s'" by (simp add: s1 s')
  moreover from o m e have "downloaded s \<le> downloaded s' \<and> skipped s \<le> skipped s' \<and>
     failures s \<le> failures s' \<and>
     (downloaded s' - downloaded s) + (skipped s' - skipped s) + (failures s' - failures s)
       = int (length (r # rs))" by auto
  ultimately show ?case by blast
qed

lemma loop_files_kept:
  "files s q = Some b \<Longrightarrow> files (state_of (fetch_loop W C tok t s rs)) q = Some b"
proof (induction rs arbitrary: s)
  case Nil
  then show ?case by simp
next
  case (Cons r rs)
  have k: "files (state_of (iteration W C tok t s r)) q = Some b"
    using Cons.prems by (rule iteration_files_kept)
  show ?case
  proof (cases "iteration W C tok t s r")
    case (Inl e)
    with k show ?thesis by (cases e) simp
  next
    case (Inr s1)
    with k have "files s1 q = Some b" by simp
    from Cons.IH [OF this] Inr show ?thesis by simp
  qed
qed

lemma loop_files_new:
  "files s q = None \<Longrightarrow> files (state_of (fetch_loop W C tok t s rs)) q \<noteq> None
     \<Longrightarrow> q \<in> (\<lambda>r. out_path (str_id W) (row_id r)) ` set rs"
proof (induction rs arbitrary: s)
  case Nil
  then show ?case by simp
next
  case (Cons r rs)
  show ?case
  proof (cases "files (state_of (iteration W C tok t s r)) q")
    case (Some b)
    with Cons.prems(1) have "q = out_path (str_id W) (row_id r)"
      using iteration_files_new [of s q W C tok t r] by simp
    then show ?thesis by simp
  next
    case None
    show ?thesis
    proof (cases "iteration W C tok t s r")
      case (Inl e)
      with None Cons.prems(2) show ?thesis by (cases e) simp
    next
      case (Inr s1)
      with None have n: "files s1 q = None" by simp
      from Cons.prems(2) Inr have "files (state_of (fetch_loop W C tok t s1 rs)) q \<noteq> None"
        by simp
      from Cons.IH [OF n this] show ?thesis by simp
    qed
  qed
qed

lemma loop_all_present:
  "\<forall>r \<in> set rs. files s (out_path (str_id W) (row_id r)) \<noteq> None \<Longrightarrow>
     fetch_loop W C tok t s rs = Inr (s\<lparr>skipped := skipped s + int (length rs)\<rparr>)"
proof (induction rs arbitrary: s)
  case Nil
  show ?case by simp
next
  case (Cons r rs)
  let ?s1 = "s\<lparr>skipped := skipped s + 1\<rparr>"
  have i: "iteration W C tok t s r = Inr ?s1"
    using Cons.prems by (simp add: iteration_def)
  have "\<forall>r \<in> set rs. files ?s1 (out_path (str_id W) (row_id r)) \<noteq> None"
    using Cons.prems by simp
  from Cons.IH [OF this] i show ?case by (simp add: add.assoc)
qed

lemma loop_failures_mono:
  "fetch_loop W C tok t s rs = Inr s' \<Longrightarrow> failures s \<le> failures s'"
proof (induction rs arbitrary: s)
  case Nil
  then show ?case by simp
next
  case (Cons r rs)
  then obtain s1 where i: "iteration W C tok t s r = Inr s1"
    and l: "fetch_loop W C tok t s1 rs = Inr s'"
    by (auto split: sum.splits)
  from iteration_failures_mono [OF i] Cons.IH [OF l] show ?case by simp
qed

lemma loop_no_failure_files:
  "fetch_loop W C tok t s rs = Inr s' \<Longrightarrow> failures s' = failures s \<Longrightarrow>
     \<forall>r \<in> set rs. files s' (out_path (str_id W) (row_id r)) \<noteq> None"
proof (induction rs arbitrary: s)
  case Nil
  show ?case by simp
next
  case (Cons r rs)
  then obtain s1 where i: "iteration W C tok t s r = Inr s1"
    and l: "fetch_loop W C tok t s1 rs = Inr s'"
    by (auto split: sum.splits)
  have f1: "failures s1 = failures s"
    using iteration_failures_mono [OF i] loop_failures_mono [OF l] Cons.prems(2) by simp
  then have f2: "failures s' = failures s1" using Cons.prems(2) by simp
  obtain b where b: "files s1 (out_path (str_id W) (row_id r)) = Some b"
    using iteration_no_failure_file [OF i f1] by blast
  have "files (state_of (fetch_loop W C tok t s1 rs)) (out_path (str_id W) (row_id r)) = Some b"
    using b by (rule loop_files_kept)
  then have "files s' (out_path (str_id W) (row_id r)) \<noteq> None" by (simp add: l)
  with Cons.IH [OF l f2] show ?case by simp
qed

lemma main_summary:
  assumes "PROGRESS_INTERVAL C \<noteq> 0" and "main W C fs = Inr s"
  shows "\<exists>n d k. last (out s) = Summary n d k \<and> d + k \<le> n \<and> (d + k = n \<longleftrightarrow> failures s = 0)"
proof -
  from assms(2) obtain tok df s3 where
    l: "fetch_loop W C tok (int (length df))
          ((initial fs)\<lparr>loaded := [DATA_PATH], out := [Starting, Total_images (int (length df))]\<rparr>) df
        = Inr s3"
    and s: "s = s3\<lparr>out := out s3 @ [Summary (int (length df)) (downloaded s3) (skipped s3)]\<rparr>"
    by (auto simp: main_def Let_def split: option.splits if_splits sum.splits)
  let ?s2 = "(initial fs)\<lparr>loaded := [DATA_PATH],
                out := [Starting, Total_images (int (length df))]\<rparr> :: 'a state"
  have z: "downloaded ?s2 = 0" "skipped ?s2 = 0" "failures ?s2 = 0"
    by (simp_all add: initial_def failures_def)
  from loop_counters [OF assms(1), of W tok "int (length df)" ?s2 df] l z
  have c: "0 \<le> downloaded s3" "0 \<le> skipped s3" "0 \<le> failures s3"
     "downloaded s3 + skipped s3 + failures s3 = int (length df)"
    by auto
  have f: "failures s = failures s3" by (simp add: s failures_def)
  have "last (out s) = Summary (int (length df)) (downloaded s3) (skipped s3)" by (simp add: s)
  with c f show ?thesis by auto
qed

section \<open>The claims\<close>

text \<open>
  C3, skip before network. If the artifact of a record already exists at its path when
  the record is processed, the iteration returns with the skip counter increased by one
  and nothing else changed: no request is issued, no file is written, the downloaded
  counter is the same and nothing is printed.
\<close>

theorem skip_before_network:
  assumes "files s (out_path (str_id W) (row_id r)) \<noteq> None"
  shows "\<exists>s'. iteration W C tok t s r = Inr s' \<and> skipped s' = skipped s + 1 \<and>
           requests s' = requests s \<and> files s' = files s \<and>
           downloaded s' = downloaded s \<and> out s' = out s \<and> loaded s' = loaded s"
  using assms by (simp add: iteration_def)

theorem skip_before_network_witness:
  "files (initial demo_storage :: int state)
      (out_path (str_id (demo_world always_ok disk_ok)) (row_id (demo_row 1))) \<noteq> None \<and>
   iteration (demo_world always_ok disk_ok) source_config ''pk.demo'' 1 (initial demo_storage)
      (demo_row 1)
     = Inr ((initial demo_storage)\<lparr>skipped := 1\<rparr>)"
  using skip_before_network [of "initial demo_storage :: int state" "demo_world always_ok disk_ok"
      "demo_row 1" source_config "''pk.demo''" 1]
  by (simp add: run_defs demo_defs)

text \<open>
  C5, the URL builder. The builder is a function of the coordinates, the zoom, the size
  and the credential alone: it reads and changes no state. The longitude is placed before
  the latitude in the path, for every input. For latitude 47.6 and longitude -122.3
  (printed by Python as \<open>47.6\<close> and \<open>-122.3\<close>), zoom 17 and size 256, the URL contains
  \<open>-122.3,47.6,17\<close> and \<open>256x256\<close> and ends with the credential as the
  \<open>access_token\<close> query parameter.
\<close>

theorem mapbox_url_lon_before_lat:
  "mapbox_url fmt tok lat lon zoom sz =
     ''https://api.mapbox.com/styles/v1/mapbox/satellite-v9/static/''
       @ fmt lon @ '','' @ fmt lat @ '','' @ str_int zoom @ ''/'' @ str_int sz @ ''x'' @ str_int sz
       @ ''?access_token='' @ tok \<and>
   (fmt lat = ''47.6'' \<and> fmt lon = ''-122.3'' \<longrightarrow>
      sublist ''-122.3,47.6,17'' (mapbox_url fmt tok lat lon 17 256) \<and>
      sublist ''256x256'' (mapbox_url fmt tok lat lon 17 256) \<and>
      suffix (''access_token='' @ tok) (mapbox_url fmt tok lat lon 17 256))"
proof -
  have z: "str_int 17 = ''17''" and p: "str_int 256 = ''256''"
    by (simp_all add: str_int_def str_nat.simps digit_def)
  have u: "fmt lat = ''47.6'' \<Longrightarrow> fmt lon = ''-122.3'' \<Longrightarrow>
     mapbox_url fmt tok lat lon 17 256 =
       ''https://api.mapbox.com/styles/v1/mapbox/satellite-v9/static/'' @ ''-122.3,47.6,17''
         @ ''/'' @ ''256x256'' @ ''?'' @ (''access_token='' @ tok)"
    by (simp add: mapbox_url_def z p)
  have a: "fmt lat = ''47.6'' \<Longrightarrow> fmt lon = ''-122.3'' \<Longrightarrow>
      sublist ''-122.3,47.6,17'' (mapbox_url fmt tok lat lon 17 256)"
    unfolding sublist_def using u by blast
  have b: "fmt lat = ''47.6'' \<Longrightarrow> fmt lon = ''-122.3'' \<Longrightarrow>
      sublist ''256x256'' (mapbox_url fmt tok lat lon 17 256)"
    unfolding sublist_def
    by (rule exI [of _ "''https://api.mapbox.com/styles/v1/mapbox/satellite-v9/static/-122.3,47.6,17/''"],
        rule exI [of _ "''?access_token='' @ tok"]) (simp add: u)
  have c: "fmt lat = ''47.6'' \<Longrightarrow> fmt lon = ''-122.3'' \<Longrightarrow>
      suffix (''access_token='' @ tok) (mapbox_url fmt tok lat lon 17 256)"
    unfolding suffix_def
    by (rule exI [of _ "''https://api.mapbox.com/styles/v1/mapbox/satellite-v9/static/-122.3,47.6,17/256x256?''"])
       (simp add: u)
  show ?thesis using a b c by (simp add: mapbox_url_def)
qed

theorem mapbox_url_lon_before_lat_witness:
  "demo_str_coord 47.6 = ''47.6'' \<and> demo_str_coord (- 122.3) = ''-122.3'' \<and>
   sublist ''-122.3,47.6,17'' (mapbox_url demo_str_coord ''pk.demo'' 47.6 (- 122.3) 17 256) \<and>
   sublist ''256x256'' (mapbox_url demo_str_coord ''pk.demo'' 47.6 (- 122.3) 17 256) \<and>
   suffix ''access_token=pk.demo'' (mapbox_url demo_str_coord ''pk.demo'' 47.6 (- 122.3) 17 256) \<and>
   mapbox_url demo_str_coord ''pk.demo'' 47.6 (- 122.3) 17 256 =
     ''https://api.mapbox.com/styles/v1/mapbox/satellite-v9/static/-122.3,47.6,17/256x256?access_token=pk.demo''"
proof -
  have h: "demo_str_coord 47.6 = ''47.6'' \<and> demo_str_coord (- 122.3) = ''-122.3''"
    by (simp add: demo_str_coord_def)
  have e: "str_int 17 = ''17''" "str_int 256 = ''256''"
    by (simp_all add: str_int_def str_nat.simps digit_def)
  note t = mapbox_url_lon_before_lat [of demo_str_coord "''pk.demo''" "47.6" "- 122.3" 17 256]
  from t [THEN conjunct2] h
  have r: "sublist ''-122.3,47.6,17'' (mapbox_url demo_str_coord ''pk.demo'' 47.6 (- 122.3) 17 256) \<and>
   sublist ''256x256'' (mapbox_url demo_str_coord ''pk.demo'' 47.6 (- 122.3) 17 256) \<and>
   suffix ''access_token=pk.demo'' (mapbox_url demo_str_coord ''pk.demo'' 47.6 (- 122.3) 17 256)"
    by simp
  from t [THEN conjunct1] h e
  have u: "mapbox_url demo_str_coord ''pk.demo'' 47.6 (- 122.3) 17 256 =
     ''https://api.mapbox.com/styles/v1/mapbox/satellite-v9/static/-122.3,47.6,17/256x256?access_token=pk.demo''"
    by simp
  from h r u show ?thesis by blast
qed

text \<open>
  C6, the credential precondition. If \<open>MAPBOX_TOKEN\<close> is absent from the environment,
  or present and empty, the script aborts with the \<open>RuntimeError\<close> of line 34 in its
  initial state: the table has not been read, no request has been issued, nothing has
  been printed, the storage is untouched and no record has been processed.
\<close>

theorem missing_credential_aborts:
  assumes "getenv W ''MAPBOX_TOKEN'' = None \<or> getenv W ''MAPBOX_TOKEN'' = Some ''''"
  shows "\<exists>s. main W C fs = Inl (RuntimeError ''MAPBOX_TOKEN not found in .env file'', s) \<and>
           loaded s = [] \<and> requests s = [] \<and> out s = [] \<and> files s = fs \<and>
           downloaded s = 0 \<and> skipped s = 0"
  using assms by (auto simp: main_def token_missing_def initial_def)

theorem missing_credential_aborts_witness:
  "getenv ((demo_world always_ok disk_ok)\<lparr>getenv := \<lambda>v. None\<rparr>) ''MAPBOX_TOKEN'' = None \<and>
   main ((demo_world always_ok disk_ok)\<lparr>getenv := \<lambda>v. None\<rparr>) source_config Map.empty
     = Inl (RuntimeError ''MAPBOX_TOKEN not found in .env file'', initial Map.empty)"
  using missing_credential_aborts [of "(demo_world always_ok disk_ok)\<lparr>getenv := \<lambda>v. None\<rparr>"
      source_config Map.empty]
  by (auto simp: initial_def demo_world_def)

text \<open>
  C4, failure isolation. For a record with no artifact whose request raises or returns a
  status other than 200 (with a progress interval other than 0, as the script's 50), the
  iteration returns normally; the line printed first after the earlier output names the
  record's identifier, with the status code when there is a response; the storage is
  unchanged and has no file at the record's path; both counters are unchanged and one
  failure line is added. The batch is not aborted: the loop over this record and any
  remaining records returns, and it is the loop over the remaining records from the state
  after the failure, in which every remaining record is processed (downloaded, skipped or
  failed, one count each).
\<close>

theorem failure_isolated:
  assumes "files s (out_path (str_id W) (row_id r)) = None"
      and "PROGRESS_INTERVAL C \<noteq> 0"
      and "requests_get W (length (requests s))
             (mapbox_url (str_coord W) tok (row_lat r) (row_long r) 17 256) = g"
      and "case g of GetRaises e \<Rightarrow> True | Response code body \<Rightarrow> code \<noteq> 200"
  shows "\<exists>s' l rest s''. iteration W C tok t s r = Inr s' \<and>
           l = (case g of GetRaises e \<Rightarrow> Error_for_ID (row_id r) e
                        | Response code body \<Rightarrow> Failed_ID (row_id r) code) \<and>
           out s' = out s @ l # rest \<and>
           files s' = files s \<and> files s' (out_path (str_id W) (row_id r)) = None \<and>
           downloaded s' = downloaded s \<and> skipped s' = skipped s \<and>
           failures s' = failures s + 1 \<and>
           fetch_loop W C tok t s (r # rs) = fetch_loop W C tok t s' rs \<and>
           fetch_loop W C tok t s (r # rs) = Inr s'' \<and>
           downloaded s' \<le> downloaded s'' \<and> skipped s' \<le> skipped s'' \<and>
           failures s' \<le> failures s'' \<and>
           (downloaded s'' - downloaded s') + (skipped s'' - skipped s')
             + (failures s'' - failures s') = int (length rs) \<and>
           (downloaded s'' - downloaded s) + (skipped s'' - skipped s)
             + (failures s'' - failures s) = int (length (r # rs))"
proof -
  let ?l = "case g of GetRaises e \<Rightarrow> Error_for_ID (row_id r) e
                    | Response code body \<Rightarrow> Failed_ID (row_id r) code"
  have "\<exists>s' rest. iteration W C tok t s r = Inr s' \<and> out s' = out s @ ?l # rest \<and>
          files s' = files s \<and> files s' (out_path (str_id W) (row_id r)) = None \<and>
          downloaded s' = downloaded s \<and> skipped s' = skipped s \<and>
          failures s' = failures s + 1"
    using assms
    by (cases g) (auto simp: iteration_def attempt_def progress_def Let_def failures_def)
  then obtain s' rest where i: "iteration W C tok t s r = Inr s'"
    and o: "out s' = out s @ ?l # rest"
    and f: "files s' = files s" "files s' (out_path (str_id W) (row_id r)) = None"
    and c: "downloaded s' = downloaded s" "skipped s' = skipped s"
    and n: "failures s' = failures s + 1"
    by blast
  obtain s'' where l: "fetch_loop W C tok t s' rs = Inr s''"
    and m: "downloaded s' \<le> downloaded s''" "skipped s' \<le> skipped s''"
           "failures s' \<le> failures s''"
    and e: "(downloaded s'' - downloaded s') + (skipped s'' - skipped s')
             + (failures s'' - failures s') = int (length rs)"
    using loop_counters [OF assms(2), of W tok t s' rs] by blast
  have k: "fetch_loop W C tok t s (r # rs) = fetch_loop W C tok t s' rs" by (simp add: i)
  have a: "(downloaded s'' - downloaded s) + (skipped s'' - skipped s)
             + (failures s'' - failures s) = int (length (r # rs))"
    using e c n by simp
  from i o f c n k l m e a show ?thesis by (simp del: fetch_loop.simps)
qed

theorem failure_isolated_witness:
  "files (initial Map.empty :: int state)
      (out_path (str_id (demo_world first_404 disk_ok)) (row_id (demo_row 1))) = None \<and>
   PROGRESS_INTERVAL source_config \<noteq> 0 \<and>
   requests_get (demo_world first_404 disk_ok) (length (requests (initial Map.empty :: int state)))
     (mapbox_url (str_coord (demo_world first_404 disk_ok)) ''pk.demo''
        (row_lat (demo_row 1)) (row_long (demo_row 1)) 17 256) = Response 404 [] \<and>
   iteration (demo_world first_404 disk_ok) source_config ''pk.demo'' 2
          (initial Map.empty) (demo_row 1)
     = Inr \<lparr>files = Map.empty, loaded = [],
            requests = [''https://api.mapbox.com/styles/v1/mapbox/satellite-v9/static/-122.3,47.6,17/256x256?access_token=pk.demo''],
            out = [Failed_ID 1 404, Downloaded_of 0 2], downloaded = 0, skipped = 0\<rparr> \<and>
   fetch_loop (demo_world first_404 disk_ok) source_config ''pk.demo'' 2
          (initial Map.empty) [demo_row 1, demo_row 2]
     = Inr \<lparr>files = [''images/train/2.jpg'' \<mapsto> jpeg], loaded = [],
            requests = [''https://api.mapbox.com/styles/v1/mapbox/satellite-v9/static/-122.3,47.6,17/256x256?access_token=pk.demo'',
                        ''https://api.mapbox.com/styles/v1/mapbox/satellite-v9/static/-122.3,47.6,17/256x256?access_token=pk.demo''],
            out = [Failed_ID 1 404, Downloaded_of 0 2], downloaded = 1, skipped = 0\<rparr>"
  using failure_isolated [of "initial Map.empty :: int state" "demo_world first_404 disk_ok"
      "demo_row 1" source_config "''pk.demo''" "Response 404 []" 2 "[demo_row 2]"]
  by (simp add: run_defs demo_defs)

text \<open>
  C10, the counters. From any state and for any list of records (with a progress interval
  other than 0, as the script's 50) the loop returns; none of the downloaded counter, the
  skip counter and the number of failure lines decreases, and together they grow by
  exactly the number of records processed. For a single record this says that exactly one
  of the three grows, by one: a record never increments both counters, and a failed
  record increments neither. In the summary that ends a completed run, downloaded plus
  skipped is at most the total requested, with equality exactly when no record failed.
\<close>

theorem counters_invariant:
  assumes "PROGRESS_INTERVAL C \<noteq> 0"
  shows "(\<exists>s'. fetch_loop W C tok t s rs = Inr s' \<and>
            downloaded s \<le> downloaded s' \<and> skipped s \<le> skipped s' \<and>
            failures s \<le> failures s' \<and>
            (downloaded s' - downloaded s) + (skipped s' - skipped s)
              + (failures s' - failures s) = int (length rs)) \<and>
         (\<forall>s'. main W C fs = Inr s' \<longrightarrow>
            (\<exists>n d k. last (out s') = Summary n d k \<and> d + k \<le> n \<and>
                     (d + k = n \<longleftrightarrow> failures s' = 0)))"
  using loop_counters [OF assms] main_summary [OF assms] by blast

theorem counters_invariant_witness:
  "PROGRESS_INTERVAL source_config \<noteq> 0 \<and>
   fetch_loop (demo_world second_404 disk_ok) source_config ''pk.demo'' 3 (initial demo_storage)
       [demo_row 1, demo_row 2, demo_row 3]
     = Inr \<lparr>files = demo_storage(''images/train/2.jpg'' \<mapsto> jpeg), loaded = [],
            requests = [''https://api.mapbox.com/styles/v1/mapbox/satellite-v9/static/-122.3,47.6,17/256x256?access_token=pk.demo'',
                        ''https://api.mapbox.com/styles/v1/mapbox/satellite-v9/static/-122.3,47.6,17/256x256?access_token=pk.demo''],
            out = [Failed_ID 3 404], downloaded = 1, skipped = 1\<rparr> \<and>
   last (out (state_of (main (demo_world second_404 disk_ok) source_config Map.empty)))
     = Summary 3 2 0"
  using counters_invariant [of source_config "demo_world second_404 disk_ok" "''pk.demo''" 3
      "initial demo_storage" "[demo_row 1, demo_row 2, demo_row 3]" Map.empty]
  by (simp add: run_defs demo_defs main_def load_data_def)

text \<open>
  C9, artifact monotonicity. Whether the loop completes or is aborted, every file that
  was in the storage before is there afterwards with the same content (nothing is deleted
  and nothing is overwritten), and every file that is new is at the artifact path of a
  record of the dataset, the one path that the record's identifier determines.
\<close>

theorem artifacts_monotone:
  "(\<forall>q b. files s q = Some b \<longrightarrow> files (state_of (fetch_loop W C tok t s rs)) q = Some b) \<and>
   (\<forall>q. files s q = None \<and> files (state_of (fetch_loop W C tok t s rs)) q \<noteq> None \<longrightarrow>
        q \<in> (\<lambda>r. out_path (str_id W) (row_id r)) ` set rs)"
  using loop_files_kept loop_files_new by blast

theorem artifacts_monotone_witness:
  "files (initial demo_storage :: int state) ''images/train/1.jpg'' = Some old_image \<and>
   files (state_of (fetch_loop (demo_world always_ok disk_ok) source_config ''pk.demo'' 2
            (initial demo_storage) [demo_row 1, demo_row 2])) ''images/train/1.jpg''
     = Some old_image \<and>
   files (initial demo_storage :: int state) ''images/train/2.jpg'' = None \<and>
   files (state_of (fetch_loop (demo_world always_ok disk_ok) source_config ''pk.demo'' 2
            (initial demo_storage) [demo_row 1, demo_row 2])) ''images/train/2.jpg''
     = Some jpeg \<and>
   ''images/train/2.jpg'' \<in> (\<lambda>r. out_path (str_id (demo_world always_ok disk_ok)) (row_id r))
        ` set [demo_row 1, demo_row 2]"
  using artifacts_monotone [of "initial demo_storage :: int state" "demo_world always_ok disk_ok"
      source_config "''pk.demo''" 2 "[demo_row 1, demo_row 2]"]
  by (simp add: run_defs demo_defs)

text \<open>
  C1, idempotence. As stated for every dataset, the claim fails: a record whose request
  failed in the first run has no artifact, so the second run requests it again. With one
  record, a first run answered 404 writes nothing; a second run from the storage it left,
  answered 200, downloads one image and skips none.
\<close>

theorem idempotence_counterexample:
  "\<not> isl (run (demo_world always_404 disk_ok) source_config ''pk.demo'' Map.empty [demo_row 1]) \<and>
   files (state_of (run (demo_world always_404 disk_ok) source_config ''pk.demo'' Map.empty
                      [demo_row 1])) = Map.empty \<and>
   downloaded (state_of (run (demo_world always_ok disk_ok) source_config ''pk.demo''
      (files (state_of (run (demo_world always_404 disk_ok) source_config ''pk.demo'' Map.empty
                          [demo_row 1])))
      [demo_row 1])) = 1 \<and>
   skipped (state_of (run (demo_world always_ok disk_ok) source_config ''pk.demo''
      (files (state_of (run (demo_world always_404 disk_ok) source_config ''pk.demo'' Map.empty
                          [demo_row 1])))
      [demo_row 1])) = 0 \<and>
   int (length [demo_row 1]) = 1"
  by (simp add: run_defs demo_defs)

text \<open>
  C1 as amended. If the first run over a dataset completes with no failed record (no
  warning or error line printed), then a second run over the same dataset from the storage
  the first run left, whatever the service and the disk would answer and with the same
  naming of artifacts, completes with no download, no request, the storage unchanged and
  a skip count equal to the size of the dataset.
\<close>

theorem rerun_skips_everything:
  assumes "run W1 C1 tok1 fs df = Inr s1" and "failures s1 = 0"
      and "str_id W2 = str_id W1"
  shows "\<exists>s2. run W2 C2 tok2 (files s1) df = Inr s2 \<and> downloaded s2 = 0 \<and>
           skipped s2 = int (length df) \<and> requests s2 = [] \<and> files s2 = files s1"
proof -
  have "failures (initial fs :: 'a state) = 0" by (simp add: failures_def initial_def)
  with assms(1,2) have "\<forall>r \<in> set df. files s1 (out_path (str_id W1) (row_id r)) \<noteq> None"
    using loop_no_failure_files [of W1 C1 tok1 "int (length df)" "initial fs" df s1]
    by (simp add: run_def)
  then have "\<forall>r \<in> set df.
      files (initial (files s1) :: 'a state) (out_path (str_id W2) (row_id r)) \<noteq> None"
    by (simp add: assms(3) initial_def)
  from loop_all_present [OF this] show ?thesis
    by (simp add: run_def initial_def)
qed

theorem rerun_skips_everything_witness:
  "run (demo_world always_ok disk_ok) source_config ''pk.demo'' Map.empty [demo_row 1, demo_row 2]
     = Inr (state_of (run (demo_world always_ok disk_ok) source_config ''pk.demo'' Map.empty
                        [demo_row 1, demo_row 2])) \<and>
   failures (state_of (run (demo_world always_ok disk_ok) source_config ''pk.demo'' Map.empty
                        [demo_row 1, demo_row 2])) = 0 \<and>
   str_id (demo_world always_404 disk_ok) = str_id (demo_world always_ok disk_ok) \<and>
   run (demo_world always_404 disk_ok) source_config ''pk.demo''
       (files (state_of (run (demo_world always_ok disk_ok) source_config ''pk.demo'' Map.empty
                        [demo_row 1, demo_row 2]))) [demo_row 1, demo_row 2]
     = Inr \<lparr>files = [''images/train/1.jpg'' \<mapsto> jpeg, ''images/train/2.jpg'' \<mapsto> jpeg],
            loaded = [], requests = [], out = [], downloaded = 0, skipped = 2\<rparr>"
  using rerun_skips_everything [of "demo_world always_ok disk_ok" source_config "''pk.demo''"
      Map.empty "[demo_row 1, demo_row 2]"
      "state_of (run (demo_world always_ok disk_ok) source_config ''pk.demo'' Map.empty
                   [demo_row 1, demo_row 2])"
      "demo_world always_404 disk_ok" source_config "''pk.demo''"]
  by (simp add: run_defs demo_defs)

text \<open>
  C8, the write on success. The script does not write atomically: line 95 creates the
  file empty at the artifact path and line 96 fills it. If the process stops between the
  two, an empty file is at the artifact path, and the next run counts the record as
  skipped without a request. Likewise, when the write raises after two bytes, the
  exception handler leaves the two bytes at the artifact path and the next run skips the
  record.
\<close>

theorem truncated_file_counterexample:
  "open_wb (out_path str_int 1) Map.empty (out_path str_int 1) = Some [] \<and> [] \<noteq> jpeg \<and>
   run (demo_world always_ok disk_ok) source_config ''pk.demo''
       (open_wb (out_path str_int 1) Map.empty) [demo_row 1]
     = Inr ((initial (open_wb (out_path str_int 1) Map.empty))\<lparr>skipped := 1\<rparr>) \<and>
   files (state_of (run (demo_world always_ok disk_full) source_config ''pk.demo'' Map.empty
                      [demo_row 1]))
       (out_path str_int 1) = Some (take 2 jpeg) \<and> take 2 jpeg \<noteq> jpeg \<and>
   skipped (state_of (run (demo_world always_ok disk_ok) source_config ''pk.demo''
      (files (state_of (run (demo_world always_ok disk_full) source_config ''pk.demo'' Map.empty
                          [demo_row 1])))
      [demo_row 1])) = 1"
  by (simp add: run_defs demo_defs)

text \<open>
  C8 as amended. For a record with no artifact whose request returns status 200 and whose
  write completes (with a progress interval other than 0, as the script's 50), the raw
  response body is written directly to the artifact path, which then holds exactly the
  body while every other file is unchanged, and the downloaded counter is incremented by
  one.
\<close>

theorem success_writes_body:
  assumes "files s (out_path (str_id W) (row_id r)) = None"
      and "PROGRESS_INTERVAL C \<noteq> 0"
      and "requests_get W (length (requests s))
             (mapbox_url (str_coord W) tok (row_lat r) (row_long r) 17 256) = Response 200 body"
      and "file_write W (length (requests s)) (out_path (str_id W) (row_id r)) = Written"
  shows "\<exists>s'. iteration W C tok t s r = Inr s' \<and>
           files s' = f_write (out_path (str_id W) (row_id r)) body
                        (open_wb (out_path (str_id W) (row_id r)) (files s)) \<and>
           files s' = (files s)(out_path (str_id W) (row_id r) \<mapsto> body) \<and>
           downloaded s' = downloaded s + 1 \<and> skipped s' = skipped s"
  using assms
  by (auto simp: iteration_def attempt_def progress_def Let_def f_write_open_wb)

theorem success_writes_body_witness:
  "files (initial Map.empty :: int state)
      (out_path (str_id (demo_world always_ok disk_ok)) (row_id (demo_row 1))) = None \<and>
   PROGRESS_INTERVAL source_config \<noteq> 0 \<and>
   requests_get (demo_world always_ok disk_ok) (length (requests (initial Map.empty :: int state)))
     (mapbox_url (str_coord (demo_world always_ok disk_ok)) ''pk.demo''
        (row_lat (demo_row 1)) (row_long (demo_row 1)) 17 256) = Response 200 jpeg \<and>
   file_write (demo_world always_ok disk_ok) (length (requests (initial Map.empty :: int state)))
      (out_path (str_id (demo_world always_ok disk_ok)) (row_id (demo_row 1))) = Written \<and>
   files (state_of (iteration (demo_world always_ok disk_ok) source_config ''pk.demo'' 1
          (initial Map.empty) (demo_row 1))) = [''images/train/1.jpg'' \<mapsto> jpeg] \<and>
   downloaded (state_of (iteration (demo_world always_ok disk_ok) source_config ''pk.demo'' 1
          (initial Map.empty) (demo_row 1))) = 1"
  using success_writes_body [of "initial Map.empty :: int state" "demo_world always_ok disk_ok"
      "demo_row 1" source_config "''pk.demo''" jpeg 1]
  by (simp add: run_defs demo_defs)

text \<open>
  C2, the progress cadence. The check of line 105 runs after every record that was not
  skipped, failed ones too, and 0 is a multiple of every interval. With the script's
  interval of 50 and one record whose request is answered 404, the run prints the
  failure line and then the progress line \<open>Downloaded 0/1 images\<close>: a progress line
  after a failed record, with a downloaded counter that is not a positive multiple of 50.
\<close>

theorem progress_after_failure:
  "run (demo_world always_404 disk_ok) source_config ''pk.demo'' Map.empty [demo_row 1] =
     Inr \<lparr>files = Map.empty, loaded = [],
          requests = [''https://api.mapbox.com/styles/v1/mapbox/satellite-v9/static/-122.3,47.6,17/256x256?access_token=pk.demo''],
          out = [Failed_ID 1 404, Downloaded_of 0 1], downloaded = 0, skipped = 0\<rparr>"
  by (simp add: run_defs demo_defs)


end
